theory Spec2Isabelle
  imports Main
begin

section \<open>Python values\<close>

text \<open>
  The program handles decoded JSON throughout: the payload of the vacancy API, the fields
  of a \<^verbatim>\<open>Vacancy\<close>, the keyword arguments of the filter and the records given to
  the file managers. Python does not check the annotations of the source at run time, so
  the model keeps the values dynamic. A Python \<^verbatim>\<open>dict\<close> with text keys is an
  association list in insertion order (Python dictionaries never hold a key twice; a
  lookup takes the first entry). Floating-point numbers are not modelled. Text is a list
  of bytes (UTF-8).
\<close>

datatype json =
    JNull
  | JBool bool
  | JInt int
  | JStr string
  | JList "json list"
  | JObj "(string \<times> json) list"

type_synonym pydict = "(string \<times> json) list"

text \<open>The exceptions of Python that the modelled code can raise.\<close>

datatype error =
    AttributeError
  | TypeError
  | KeyError
  | ValueError
  | IndexError
  | FileNotFoundError

text \<open>Truth value of an object, as \<^verbatim>\<open>if x\<close>, \<^verbatim>\<open>not x\<close> and \<^verbatim>\<open>x or y\<close> take it.\<close>

fun py_truthy :: "json \<Rightarrow> bool" where
  "py_truthy JNull = False"
| "py_truthy (JBool b) = b"
| "py_truthy (JInt i) = (i \<noteq> 0)"
| "py_truthy (JStr s) = (s \<noteq> [])"
| "py_truthy (JList xs) = (xs \<noteq> [])"
| "py_truthy (JObj kvs) = (kvs \<noteq> [])"

text \<open>
  Python's \<^verbatim>\<open>==\<close>: \<^verbatim>\<open>bool\<close> is a subtype of \<^verbatim>\<open>int\<close>
  (\<^verbatim>\<open>True == 1\<close>), lists are equal elementwise, dictionaries are equal when they
  have the same number of entries and every key of the left one is bound to an equal value
  in the right one, whatever the order. Values of different kinds are unequal.
\<close>

fun py_eq :: "json \<Rightarrow> json \<Rightarrow> bool"
  and py_eq_list :: "json list \<Rightarrow> json list \<Rightarrow> bool"
  and py_eq_items :: "(string \<times> json) list \<Rightarrow> (string \<times> json) list \<Rightarrow> bool" where
  "py_eq JNull JNull = True"
| "py_eq (JBool a) (JBool b) = (a = b)"
| "py_eq (JBool a) (JInt j) = ((if a then 1 else 0) = j)"
| "py_eq (JInt i) (JBool b) = (i = (if b then 1 else 0))"
| "py_eq (JInt i) (JInt j) = (i = j)"
| "py_eq (JStr s) (JStr t) = (s = t)"
| "py_eq (JList xs) (JList ys) = py_eq_list xs ys"
| "py_eq (JObj xs) (JObj ys) = (length xs = length ys \<and> py_eq_items xs ys)"
| "py_eq _ _ = False"
| "py_eq_list [] [] = True"
| "py_eq_list (x # xs) (y # ys) = (py_eq x y \<and> py_eq_list xs ys)"
| "py_eq_list _ _ = False"
| "py_eq_items [] ys = True"
| "py_eq_items ((k, v) # xs) ys =
     (case map_of ys k of None \<Rightarrow> False | Some w \<Rightarrow> py_eq v w \<and> py_eq_items xs ys)"

text \<open>
  The ordering comparisons \<^verbatim>\<open><\<close>, \<^verbatim>\<open><=\<close>, \<^verbatim>\<open>>\<close>, \<^verbatim>\<open>>=\<close>.
  Numbers (with \<^verbatim>\<open>bool\<close> as 0 and 1) compare by value, texts and lists
  lexicographically; a list comparison looks for the first position whose elements are not
  \<^verbatim>\<open>==\<close> and compares those. Every other pair, \<^verbatim>\<open>None\<close> and dictionaries
  included, raises \<^verbatim>\<open>TypeError\<close>.
\<close>

datatype ord3 = Lt | Eq | Gt

definition int_cmp :: "int \<Rightarrow> int \<Rightarrow> ord3" where
  "int_cmp i j = (if i < j then Lt else if i = j then Eq else Gt)"

fun str_cmp :: "string \<Rightarrow> string \<Rightarrow> ord3" where
  "str_cmp [] [] = Eq"
| "str_cmp [] (d # t) = Lt"
| "str_cmp (c # s) [] = Gt"
| "str_cmp (c # s) (d # t) =
     (if c = d then str_cmp s t
      else if (of_char c :: nat) < of_char d then Lt else Gt)"

fun py_cmp :: "json \<Rightarrow> json \<Rightarrow> error + ord3"
  and py_cmp_list :: "json list \<Rightarrow> json list \<Rightarrow> error + ord3" where
  "py_cmp (JInt i) (JInt j) = Inr (int_cmp i j)"
| "py_cmp (JInt i) (JBool b) = Inr (int_cmp i (if b then 1 else 0))"
| "py_cmp (JBool a) (JInt j) = Inr (int_cmp (if a then 1 else 0) j)"
| "py_cmp (JBool a) (JBool b) = Inr (int_cmp (if a then 1 else 0) (if b then 1 else 0))"
| "py_cmp (JStr s) (JStr t) = Inr (str_cmp s t)"
| "py_cmp (JList xs) (JList ys) = py_cmp_list xs ys"
| "py_cmp _ _ = Inl TypeError"
| "py_cmp_list [] [] = Inr Eq"
| "py_cmp_list [] (y # ys) = Inr Lt"
| "py_cmp_list (x # xs) [] = Inr Gt"
| "py_cmp_list (x # xs) (y # ys) = (if py_eq x y then py_cmp_list xs ys else py_cmp x y)"

definition py_gt :: "json \<Rightarrow> json \<Rightarrow> error + bool" where
  "py_gt x y = (case py_cmp x y of Inl e \<Rightarrow> Inl e | Inr c \<Rightarrow> Inr (c = Gt))"

definition py_lt :: "json \<Rightarrow> json \<Rightarrow> error + bool" where
  "py_lt x y = (case py_cmp x y of Inl e \<Rightarrow> Inl e | Inr c \<Rightarrow> Inr (c = Lt))"

definition py_ge :: "json \<Rightarrow> json \<Rightarrow> error + bool" where
  "py_ge x y = (case py_cmp x y of Inl e \<Rightarrow> Inl e | Inr c \<Rightarrow> Inr (c \<noteq> Lt))"

definition py_le :: "json \<Rightarrow> json \<Rightarrow> error + bool" where
  "py_le x y = (case py_cmp x y of Inl e \<Rightarrow> Inl e | Inr c \<Rightarrow> Inr (c \<noteq> Gt))"

text \<open>
  \<^verbatim>\<open>d.get(k)\<close> on a dictionary gives \<^verbatim>\<open>None\<close> for a missing key; on any other
  JSON value there is no method \<^verbatim>\<open>get\<close> and the call raises
  \<^verbatim>\<open>AttributeError\<close>. \<^verbatim>\<open>d[k]\<close> raises \<^verbatim>\<open>KeyError\<close> for a missing key;
  a text key on a text or a list, and any subscript on a number or \<^verbatim>\<open>None\<close>, raise
  \<^verbatim>\<open>TypeError\<close>.
\<close>

definition dict_get :: "pydict \<Rightarrow> string \<Rightarrow> json" where
  "dict_get d k = (case map_of d k of None \<Rightarrow> JNull | Some v \<Rightarrow> v)"

fun py_get :: "json \<Rightarrow> string \<Rightarrow> error + json" where
  "py_get (JObj d) k = Inr (dict_get d k)"
| "py_get _ k = Inl AttributeError"

fun py_getitem :: "json \<Rightarrow> string \<Rightarrow> error + json" where
  "py_getitem (JObj d) k = (case map_of d k of None \<Rightarrow> Inl KeyError | Some v \<Rightarrow> Inr v)"
| "py_getitem _ k = Inl TypeError"

text \<open>
  Iteration (\<^verbatim>\<open>for x in v\<close>): a list gives its elements, a text its characters, a
  dictionary its keys; \<^verbatim>\<open>None\<close> and numbers are not iterable.
\<close>

fun py_iter :: "json \<Rightarrow> error + json list" where
  "py_iter (JList xs) = Inr xs"
| "py_iter (JStr s) = Inr (map (\<lambda>c. JStr [c]) s)"
| "py_iter (JObj d) = Inr (map (\<lambda>kv. JStr (fst kv)) d)"
| "py_iter _ = Inl TypeError"

text \<open>
  \<^verbatim>\<open>int(x)\<close>. On ASCII text: optional white space around an optional sign and
  decimal digits, where single underscores may separate digits; anything else raises
  \<^verbatim>\<open>ValueError\<close>, which is \<open>None\<close> in \<open>int_of_ascii\<close>. On text that holds a
  character outside ASCII the result depends on the Unicode tables of the interpreter
  (which further characters are white space or decimal digits), and on text with more than
  640 digits on its configured limit for the number of digits. Neither is part of the
  program: for text that is not ASCII or is longer than 640 characters the result is the
  parameter \<open>int_other\<close> (\<open>None\<close> for \<^verbatim>\<open>ValueError\<close>). On a list, a
  dictionary or \<^verbatim>\<open>None\<close>, \<^verbatim>\<open>int\<close> raises \<^verbatim>\<open>TypeError\<close>.
\<close>

definition is_space :: "char \<Rightarrow> bool" where
  "is_space c = ((of_char c :: nat) \<in> {9, 10, 11, 12, 13, 32})"

definition is_digit :: "char \<Rightarrow> bool" where
  "is_digit c = (48 \<le> (of_char c :: nat) \<and> (of_char c :: nat) \<le> 57)"

definition digit_val :: "char \<Rightarrow> nat" where
  "digit_val c = of_char c - 48"

fun digits :: "nat \<Rightarrow> string \<Rightarrow> nat option" where
  "digits acc [] = Some acc"
| "digits acc [c] = (if is_digit c then Some (10 * acc + digit_val c) else None)"
| "digits acc (c # d # cs) =
     (if is_digit c then digits (10 * acc + digit_val c) (d # cs)
      else if c = CHR ''_'' \<and> is_digit d then digits (10 * acc + digit_val d) cs
      else None)"

definition unsigned :: "string \<Rightarrow> nat option" where
  "unsigned s = (case s of [] \<Rightarrow> None | c # cs \<Rightarrow> if is_digit c then digits (digit_val c) cs else None)"

definition strip :: "string \<Rightarrow> string" where
  "strip s = rev (dropWhile is_space (rev (dropWhile is_space s)))"

definition int_of_ascii :: "string \<Rightarrow> int option" where
  "int_of_ascii s =
     (case strip s of
        [] \<Rightarrow> None
      | c # cs \<Rightarrow>
          if c = CHR ''-'' then map_option (\<lambda>n. - int n) (unsigned cs)
          else if c = CHR ''+'' then map_option int (unsigned cs)
          else map_option int (unsigned (c # cs)))"

definition is_ascii :: "string \<Rightarrow> bool" where
  "is_ascii s = list_all (\<lambda>c. (of_char c :: nat) < 128) s"

definition int_of_str :: "(string \<Rightarrow> int option) \<Rightarrow> string \<Rightarrow> int option" where
  "int_of_str int_other s =
     (if is_ascii s \<and> length s \<le> 640 then int_of_ascii s else int_other s)"

fun py_int :: "(string \<Rightarrow> int option) \<Rightarrow> json \<Rightarrow> error + int" where
  "py_int int_other (JInt i) = Inr i"
| "py_int int_other (JBool b) = Inr (if b then 1 else 0)"
| "py_int int_other (JStr s) =
     (case int_of_str int_other s of None \<Rightarrow> Inl ValueError | Some i \<Rightarrow> Inr i)"
| "py_int int_other _ = Inl TypeError"

section \<open>The vacancy model (src/integration.py)\<close>

text \<open>
  \<^verbatim>\<open>class Vacancy\<close> has the slots \<^verbatim>\<open>name\<close>, \<^verbatim>\<open>_url\<close>, \<^verbatim>\<open>salary\<close>,
  \<^verbatim>\<open>description\<close> and \<^verbatim>\<open>requirements\<close>; the constructor stores its arguments
  as they come. The slot \<^verbatim>\<open>_url\<close> is the field \<open>url\<close> here.
\<close>

record vacancy =
  name :: json
  url :: json
  salary :: json
  description :: json
  requirements :: json

subsection \<open>\<^verbatim>\<open>Vacancy.json_to_object\<close>\<close>

text \<open>
  One element of the list comprehension: the five arguments of the constructor are
  evaluated from left to right, the last one being
  \<^verbatim>\<open>vacancy.get("snippet").get("requirement")\<close>.
\<close>

definition item_to_vacancy :: "json \<Rightarrow> error + vacancy" where
  "item_to_vacancy item =
     (case py_get item ''name'' of Inl e \<Rightarrow> Inl e | Inr n \<Rightarrow>
      case py_get item ''url'' of Inl e \<Rightarrow> Inl e | Inr u \<Rightarrow>
      case py_get item ''salary'' of Inl e \<Rightarrow> Inl e | Inr s \<Rightarrow>
      case py_get item ''description'' of Inl e \<Rightarrow> Inl e | Inr d \<Rightarrow>
      case py_get item ''snippet'' of Inl e \<Rightarrow> Inl e | Inr snippet \<Rightarrow>
      case py_get snippet ''requirement'' of Inl e \<Rightarrow> Inl e | Inr r \<Rightarrow>
        Inr \<lparr>name = n, url = u, salary = s, description = d, requirements = r\<rparr>)"

text \<open>The comprehension stops at the first element that raises.\<close>

fun comprehension :: "('a \<Rightarrow> error + 'b) \<Rightarrow> 'a list \<Rightarrow> error + 'b list" where
  "comprehension f [] = Inr []"
| "comprehension f (x # xs) =
     (case f x of Inl e \<Rightarrow> Inl e | Inr y \<Rightarrow>
      case comprehension f xs of Inl e \<Rightarrow> Inl e | Inr ys \<Rightarrow> Inr (y # ys))"

definition json_to_object :: "json \<Rightarrow> error + vacancy list" where
  "json_to_object vacancies =
     (case py_get vacancies ''items'' of Inl e \<Rightarrow> Inl e | Inr items \<Rightarrow>
      case py_iter items of Inl e \<Rightarrow> Inl e | Inr its \<Rightarrow>
        comprehension item_to_vacancy its)"

subsection \<open>\<^verbatim>\<open>Vacancy.is_filter_by_salary\<close>\<close>

text \<open>
  The threshold is \<^verbatim>\<open>int | None\<close> (the caller has parsed it). The function returns
  \<^verbatim>\<open>True\<close>, \<^verbatim>\<open>False\<close> or, when no branch of the final \<^verbatim>\<open>if\<close> chain is taken,
  \<^verbatim>\<open>None\<close>. The tests \<^verbatim>\<open>not salary_filter_value\<close> and \<^verbatim>\<open>source_salary and not
  destination_salary\<close> are truth-value tests, so the number 0 counts like \<^verbatim>\<open>None\<close>.
  The chained comparison \<^verbatim>\<open>a <= t <= b\<close> is \<^verbatim>\<open>a <= t and t <= b\<close>.
\<close>

definition is_filter_by_salary :: "int option \<Rightarrow> json \<Rightarrow> error + json" where
  "is_filter_by_salary salary_filter_value vacancy_salary =
     (case salary_filter_value of
        None \<Rightarrow> Inr (JBool True)
      | Some t \<Rightarrow>
          if t = 0 then Inr (JBool True)
          else if vacancy_salary = JNull then Inr (JBool False)
          else
            case py_get vacancy_salary ''from'' of Inl e \<Rightarrow> Inl e | Inr source_salary \<Rightarrow>
            case py_get vacancy_salary ''to'' of Inl e \<Rightarrow> Inl e | Inr destination_salary \<Rightarrow>
              if py_truthy source_salary \<and> \<not> py_truthy destination_salary then
                (case py_ge (JInt t) source_salary of Inl e \<Rightarrow> Inl e | Inr b \<Rightarrow> Inr (JBool b))
              else if \<not> py_truthy source_salary \<and> py_truthy destination_salary then
                (case py_le (JInt t) destination_salary of Inl e \<Rightarrow> Inl e | Inr b \<Rightarrow> Inr (JBool b))
              else if py_truthy source_salary \<and> py_truthy destination_salary then
                (case py_le source_salary (JInt t) of
                   Inl e \<Rightarrow> Inl e
                 | Inr b \<Rightarrow>
                     if b then
                       (case py_le (JInt t) destination_salary of
                          Inl e \<Rightarrow> Inl e
                        | Inr b' \<Rightarrow> Inr (JBool b'))
                     else Inr (JBool False))
              else Inr JNull)"

subsection \<open>\<^verbatim>\<open>Vacancy.filter_by_fields\<close>\<close>

text \<open>
  The keyword arguments are a dictionary read with \<^verbatim>\<open>kwargs.get\<close> only, hence a map.
  \<^verbatim>\<open>int(salary) if salary else None\<close> under \<^verbatim>\<open>except ValueError\<close>: a text that does
  not parse gives no threshold, a \<^verbatim>\<open>TypeError\<close> is not caught. The first argument of
  \<open>salary_threshold\<close> and \<open>filter_by_fields\<close> is the parameter of \<open>int_of_str\<close>.
\<close>

type_synonym kwargs = "string \<rightharpoonup> json"

definition kwargs_get :: "kwargs \<Rightarrow> string \<Rightarrow> json" where
  "kwargs_get kw k = (case kw k of None \<Rightarrow> JNull | Some v \<Rightarrow> v)"

definition salary_threshold :: "(string \<Rightarrow> int option) \<Rightarrow> json \<Rightarrow> error + int option" where
  "salary_threshold int_other s =
     (if py_truthy s then
        (case py_int int_other s of
           Inr i \<Rightarrow> Inr (Some i)
         | Inl e \<Rightarrow> if e = ValueError then Inr None else Inl e)
      else Inr None)"

text \<open>
  The condition of the loop body for one vacancy; \<^verbatim>\<open>and\<close> and \<^verbatim>\<open>or\<close> evaluate from
  the left and stop early, so \<^verbatim>\<open>is_filter_by_salary\<close> is only called (and can only
  raise) when the name and url tests have passed.
\<close>

definition field_ok :: "json \<Rightarrow> json \<Rightarrow> bool" where
  "field_ok criterion val = (\<not> py_truthy criterion \<or> py_eq val criterion)"

definition keeps :: "json \<Rightarrow> json \<Rightarrow> int option \<Rightarrow> json \<Rightarrow> json \<Rightarrow> vacancy \<Rightarrow> error + bool" where
  "keeps nm ur sal descr req v =
     (if field_ok nm (name v) \<and> field_ok ur (url v) then
        (case is_filter_by_salary sal (salary v) of
           Inl e \<Rightarrow> Inl e
         | Inr r \<Rightarrow> Inr (py_truthy r \<and> field_ok descr (description v) \<and> field_ok req (requirements v)))
      else Inr False)"

fun filter_loop ::
  "(vacancy \<Rightarrow> error + bool) \<Rightarrow> vacancy list \<Rightarrow> vacancy list \<Rightarrow> error + vacancy list" where
  "filter_loop cond [] filtered_vacancies = Inr filtered_vacancies"
| "filter_loop cond (v # vs) filtered_vacancies =
     (case cond v of
        Inl e \<Rightarrow> Inl e
      | Inr b \<Rightarrow> filter_loop cond vs (if b then filtered_vacancies @ [v] else filtered_vacancies))"

definition filter_by_fields ::
  "(string \<Rightarrow> int option) \<Rightarrow> vacancy list \<Rightarrow> kwargs \<Rightarrow> error + vacancy list" where
  "filter_by_fields int_other vacancies kw =
     (let nm = kwargs_get kw ''name'';
          ur = kwargs_get kw ''url'';
          sal = kwargs_get kw ''salary'';
          descr = kwargs_get kw ''description'';
          req = kwargs_get kw ''requirements''
      in case salary_threshold int_other sal of
           Inl e \<Rightarrow> Inl e
         | Inr t \<Rightarrow>
             (case filter_loop (keeps nm ur t descr req) vacancies [] of
                Inl e \<Rightarrow> Inl e
              | Inr filtered_vacancies \<Rightarrow>
                  Inr (if filtered_vacancies \<noteq> [] then filtered_vacancies else vacancies)))"

subsection \<open>Serialisation\<close>

definition serialized_vacancy :: "vacancy \<Rightarrow> pydict" where
  "serialized_vacancy v =
     [(''name'', name v),
      (''url'', url v),
      (''salary'', salary v),
      (''description'', description v),
      (''requirements'', requirements v)]"

definition serialized_vacancies :: "vacancy list \<Rightarrow> pydict list" where
  "serialized_vacancies vacancies = map serialized_vacancy vacancies"

subsection \<open>\<^verbatim>\<open>Vacancy.__gt__\<close> and \<^verbatim>\<open>Vacancy.__lt__\<close>\<close>

text \<open>
  Both return one of the two vacancies, or the text that says (in Russian) that the salary
  is not specified, given here by its UTF-8 bytes.
\<close>

datatype compared = Vac vacancy | Text string

definition salary_not_specified :: string where
  "salary_not_specified =
     [CHR 0xD0, CHR 0x97, CHR 0xD0, CHR 0xB0, CHR 0xD1, CHR 0x80, CHR 0xD0, CHR 0xBF,
      CHR 0xD0, CHR 0xBB, CHR 0xD0, CHR 0xB0, CHR 0xD1, CHR 0x82, CHR 0xD0, CHR 0xB0,
      CHR 0x20, CHR 0xD0, CHR 0xBD, CHR 0xD0, CHR 0xB5, CHR 0x20, CHR 0xD1, CHR 0x83,
      CHR 0xD0, CHR 0xBA, CHR 0xD0, CHR 0xB0, CHR 0xD0, CHR 0xB7, CHR 0xD0, CHR 0xB0,
      CHR 0xD0, CHR 0xBD, CHR 0xD0, CHR 0xB0]"

definition vacancy_gt :: "vacancy \<Rightarrow> vacancy \<Rightarrow> error + compared" where
  "vacancy_gt self other =
     (if salary self \<noteq> JNull \<and> salary other \<noteq> JNull then
        (case py_getitem (salary self) ''to'' of Inl e \<Rightarrow> Inl e | Inr a \<Rightarrow>
         case py_getitem (salary other) ''to'' of Inl e \<Rightarrow> Inl e | Inr b \<Rightarrow>
         case py_gt a b of Inl e \<Rightarrow> Inl e | Inr c \<Rightarrow> Inr (Vac (if c then self else other)))
      else Inr (Text salary_not_specified))"

definition vacancy_lt :: "vacancy \<Rightarrow> vacancy \<Rightarrow> error + compared" where
  "vacancy_lt self other =
     (if salary self \<noteq> JNull \<and> salary other \<noteq> JNull then
        (case py_getitem (salary self) ''to'' of Inl e \<Rightarrow> Inl e | Inr a \<Rightarrow>
         case py_getitem (salary other) ''to'' of Inl e \<Rightarrow> Inl e | Inr b \<Rightarrow>
         case py_lt a b of Inl e \<Rightarrow> Inl e | Inr c \<Rightarrow> Inr (Vac (if c then self else other)))
      else Inr (Text salary_not_specified))"

section \<open>Truncation (main.py)\<close>

text \<open>
  \<^verbatim>\<open>get_vacancies\<close> cuts the filtered list with the slice
  \<^verbatim>\<open>filtered_vacancies[:top_vacancies]\<close>. A slice never raises; a negative bound
  counts from the end of the list.
\<close>

definition slice_upto :: "'a list \<Rightarrow> int \<Rightarrow> 'a list" where
  "slice_upto xs n = (if n < 0 then take (nat (int (length xs) + n)) xs else take (nat n) xs)"

section \<open>The file managers (src/file_manager.py)\<close>

subsection \<open>\<^verbatim>\<open>JsonFileManager\<close>\<close>

text \<open>
  The state is the file at \<^verbatim>\<open>self.output\<close>: \<open>None\<close> when it does not exist, else
  the JSON document it holds. \<^verbatim>\<open>json.dump\<close> followed by \<^verbatim>\<open>json.load\<close> gives the
  document back (the values of \<^typ>\<open>json\<close> are exactly those that survive it), and opening
  the path for writing is taken to succeed. Every operation returns its outcome and the
  file it leaves.
\<close>

type_synonym json_file = "json option"

definition read_json :: "json_file \<Rightarrow> error + json" where
  "read_json fs = (case fs of None \<Rightarrow> Inl FileNotFoundError | Some doc \<Rightarrow> Inr doc)"

definition json_save :: "json list \<Rightarrow> json_file \<Rightarrow> (error + unit) \<times> json_file" where
  "json_save data fs = (Inr (), Some (JList data))"

text \<open>
  \<^verbatim>\<open>file_data.append(data)\<close> and \<^verbatim>\<open>file_data.remove(data)\<close> exist on lists only.
  \<^verbatim>\<open>list.remove\<close> deletes the first element that is \<^verbatim>\<open>==\<close> to its argument
  and raises \<^verbatim>\<open>ValueError\<close> when there is none.
\<close>

fun list_remove :: "json list \<Rightarrow> json \<Rightarrow> error + json list" where
  "list_remove [] x = Inl ValueError"
| "list_remove (y # ys) x =
     (if py_eq y x then Inr ys
      else case list_remove ys x of Inl e \<Rightarrow> Inl e | Inr zs \<Rightarrow> Inr (y # zs))"

definition json_add_object :: "json \<Rightarrow> json_file \<Rightarrow> (error + unit) \<times> json_file" where
  "json_add_object data fs =
     (case read_json fs of
        Inl e \<Rightarrow> (Inl e, fs)
      | Inr file_data \<Rightarrow>
          (case file_data of
             JList xs \<Rightarrow> (Inr (), Some (JList (xs @ [data])))
           | _ \<Rightarrow> (Inl AttributeError, fs)))"

definition json_delete_object :: "json \<Rightarrow> json_file \<Rightarrow> (error + unit) \<times> json_file" where
  "json_delete_object data fs =
     (case read_json fs of
        Inl e \<Rightarrow> (Inl e, fs)
      | Inr file_data \<Rightarrow>
          (case file_data of
             JList xs \<Rightarrow>
               (case list_remove xs data of
                  Inl e \<Rightarrow> (Inl e, fs)
                | Inr ys \<Rightarrow> (Inr (), Some (JList ys)))
           | _ \<Rightarrow> (Inl AttributeError, fs)))"

subsection \<open>\<^verbatim>\<open>CsvFileManager.save\<close>\<close>

text \<open>
  The state is the list of rows handed to the underlying \<^verbatim>\<open>csv.writer\<close> since the file
  was opened for writing (their rendering as text is the \<^verbatim>\<open>csv\<close> module's), or
  \<open>None\<close> when the file does not exist. \<^verbatim>\<open>csv.DictWriter\<close> turns a record into a
  row by looking up each field name, with the empty text for a missing one, and raises
  \<^verbatim>\<open>ValueError\<close> when the record has a key that is no field name. \<^verbatim>\<open>writerows\<close>
  converts and writes the records one after the other, so the rows before a failing record
  are in the file. \<^verbatim>\<open>data[0]\<close> is evaluated before the file is opened.
\<close>

type_synonym csv_file = "json list list option"

definition dict_to_list :: "string list \<Rightarrow> pydict \<Rightarrow> error + json list" where
  "dict_to_list fieldnames rowdict =
     (if \<exists>k \<in> set (map fst rowdict). k \<notin> set fieldnames then Inl ValueError
      else Inr (map (\<lambda>key. case map_of rowdict key of None \<Rightarrow> JStr [] | Some v \<Rightarrow> v) fieldnames))"

fun writerows :: "string list \<Rightarrow> pydict list \<Rightarrow> json list list \<Rightarrow> (error + unit) \<times> json list list" where
  "writerows fieldnames [] written = (Inr (), written)"
| "writerows fieldnames (rowdict # rowdicts) written =
     (case dict_to_list fieldnames rowdict of
        Inl e \<Rightarrow> (Inl e, written)
      | Inr row \<Rightarrow> writerows fieldnames rowdicts (written @ [row]))"

definition csv_save :: "pydict list \<Rightarrow> csv_file \<Rightarrow> (error + unit) \<times> csv_file" where
  "csv_save data fs =
     (case data of
        [] \<Rightarrow> (Inl IndexError, fs)
      | first # _ \<Rightarrow>
          (let keys = map fst first;
               (res, written) = writerows keys data [map JStr keys]
           in (res, Some written)))"

section \<open>Input types and the filter criteria as the specification words them\<close>

text \<open>
  The annotations of the source and the contract of the vacancy API give the salary of a
  vacancy as \<^verbatim>\<open>None\<close> or a dictionary whose \<^verbatim>\<open>from\<close> and \<^verbatim>\<open>to\<close> are each
  missing, \<^verbatim>\<open>null\<close> or an integer. \<open>nz_salary\<close> is such a salary whose integers
  are not 0. The salary criterion of the filter is text, an integer or absent
  (\<open>threshold_arg\<close>).
\<close>

fun nz_bound :: "json \<Rightarrow> bool" where
  "nz_bound JNull = True"
| "nz_bound (JInt i) = (i \<noteq> 0)"
| "nz_bound _ = False"

fun nz_salary :: "json \<Rightarrow> bool" where
  "nz_salary JNull = True"
| "nz_salary (JObj d) = (nz_bound (dict_get d ''from'') \<and> nz_bound (dict_get d ''to''))"
| "nz_salary _ = False"

fun threshold_arg :: "json \<Rightarrow> bool" where
  "threshold_arg JNull = True"
| "threshold_arg (JStr s) = True"
| "threshold_arg (JInt i) = True"
| "threshold_arg _ = False"

text \<open>
  The salary rules in the words of the specification, which speak of presence, not of
  truth values. A bound is present when it is an integer. Without a threshold every record
  passes; with a threshold, a record without salary fails, a salary with only
  \<^verbatim>\<open>from\<close> passes iff the threshold is at least \<^verbatim>\<open>from\<close>, one with only
  \<^verbatim>\<open>to\<close> iff the threshold is at most \<^verbatim>\<open>to\<close>, one with both iff the
  threshold lies between them, and a range with neither bound counts as not disclosed.
\<close>

fun bound :: "json \<Rightarrow> int option" where
  "bound (JInt i) = Some i"
| "bound _ = None"

fun range_passes :: "int \<Rightarrow> int option \<Rightarrow> int option \<Rightarrow> bool" where
  "range_passes t (Some f) None = (t \<ge> f)"
| "range_passes t None (Some y) = (t \<le> y)"
| "range_passes t (Some f) (Some y) = (f \<le> t \<and> t \<le> y)"
| "range_passes t None None = False"

fun spec_salary_passes :: "int option \<Rightarrow> json \<Rightarrow> bool" where
  "spec_salary_passes None sal = True"
| "spec_salary_passes (Some t) (JObj d) =
     range_passes t (bound (dict_get d ''from'')) (bound (dict_get d ''to''))"
| "spec_salary_passes (Some t) _ = False"

text \<open>
  The threshold a criteria set supplies: a number, or text that parses to one; text that
  does not parse, and no criterion, give none.
\<close>

fun spec_threshold :: "(string \<Rightarrow> int option) \<Rightarrow> json \<Rightarrow> int option" where
  "spec_threshold int_other (JInt i) = Some i"
| "spec_threshold int_other (JStr s) = int_of_str int_other s"
| "spec_threshold int_other _ = None"

text \<open>
  A record satisfies a criteria set, at a salary threshold, when it satisfies every
  supplied (non-empty) criterion: the four field criteria by equality, the threshold by the
  salary rules above.
\<close>

definition criterion_met :: "json \<Rightarrow> json \<Rightarrow> bool" where
  "criterion_met criterion val = (py_truthy criterion \<longrightarrow> py_eq val criterion)"

definition spec_satisfies :: "int option \<Rightarrow> kwargs \<Rightarrow> vacancy \<Rightarrow> bool" where
  "spec_satisfies threshold kw v =
     (criterion_met (kwargs_get kw ''name'') (name v)
      \<and> criterion_met (kwargs_get kw ''url'') (url v)
      \<and> spec_salary_passes threshold (salary v)
      \<and> criterion_met (kwargs_get kw ''description'') (description v)
      \<and> criterion_met (kwargs_get kw ''requirements'') (requirements v))"

text \<open>The source takes a threshold of 0 as no threshold.\<close>

definition nonzero_threshold :: "int option \<Rightarrow> int option" where
  "nonzero_threshold threshold = (if threshold = Some 0 then None else threshold)"

section \<open>The salary check\<close>

lemma zero_threshold_is_none: "is_filter_by_salary (Some 0) s = is_filter_by_salary None s"
  by (simp add: is_filter_by_salary_def)

lemma no_bound_is_none:
  "t \<noteq> 0 \<Longrightarrow> \<not> py_truthy (dict_get d ''from'') \<Longrightarrow> \<not> py_truthy (dict_get d ''to'') \<Longrightarrow>
   is_filter_by_salary (Some t) (JObj d) = Inr JNull"
  by (simp add: is_filter_by_salary_def)

text \<open>
  Claim C1, as amended. Without a threshold, and with the threshold 0, every record passes.
  With a threshold \<open>t\<close> other than 0: a record without salary fails; a salary whose only
  bound is a \<^verbatim>\<open>from\<close> \<open>f\<close> other than 0 passes iff \<open>t \<ge> f\<close>; one whose only bound is a
  \<^verbatim>\<open>to\<close> \<open>y\<close> other than 0 passes iff \<open>t \<le> y\<close>; one with both passes iff
  \<open>f \<le> t \<le> y\<close>. A bound is absent when its key is missing or holds \<^verbatim>\<open>null\<close>.
\<close>

theorem is_filter_by_salary_rules:
  fixes t f y :: int
  assumes "t \<noteq> 0" and "f \<noteq> 0" and "y \<noteq> 0"
  shows "is_filter_by_salary None s = Inr (JBool True)
    \<and> is_filter_by_salary (Some 0) s = Inr (JBool True)
    \<and> is_filter_by_salary (Some t) JNull = Inr (JBool False)
    \<and> (dict_get d1 ''from'' = JInt f \<and> dict_get d1 ''to'' = JNull
         \<longrightarrow> is_filter_by_salary (Some t) (JObj d1) = Inr (JBool (t \<ge> f)))
    \<and> (dict_get d2 ''from'' = JNull \<and> dict_get d2 ''to'' = JInt y
         \<longrightarrow> is_filter_by_salary (Some t) (JObj d2) = Inr (JBool (t \<le> y)))
    \<and> (dict_get d3 ''from'' = JInt f \<and> dict_get d3 ''to'' = JInt y
         \<longrightarrow> is_filter_by_salary (Some t) (JObj d3) = Inr (JBool (f \<le> t \<and> t \<le> y)))"
  using assms
  by (auto simp: is_filter_by_salary_def py_ge_def py_le_def int_cmp_def)

text \<open>
  The rules at the threshold 1500: no salary; from 1000 only; to 2000 only (the key
  \<^verbatim>\<open>from\<close> missing); from 1000 to 1200.
\<close>

theorem is_filter_by_salary_rules_witness:
  "is_filter_by_salary (Some 1500) JNull = Inr (JBool False)
   \<and> is_filter_by_salary (Some 1500) (JObj [(''from'', JInt 1000), (''to'', JNull)])
       = Inr (JBool True)
   \<and> is_filter_by_salary (Some 1500) (JObj [(''to'', JInt 2000)]) = Inr (JBool True)
   \<and> is_filter_by_salary (Some 1500) (JObj [(''from'', JInt 1000), (''to'', JInt 1200)])
       = Inr (JBool False)"
  using
    is_filter_by_salary_rules [of 1500 1000 2000 JNull
      "[(''from'', JInt 1000), (''to'', JNull)]" "[(''to'', JInt 2000)]"
      "[(''from'', JInt 1000), (''to'', JInt 2000)]"]
    is_filter_by_salary_rules [of 1500 1000 1200 JNull "[]" "[]"
      "[(''from'', JInt 1000), (''to'', JInt 1200)]"]
  by (simp add: dict_get_def)

text \<open>
  Claim C1 as stated fails where a number is 0. The threshold 0 is supplied and the record
  has no salary, yet the record passes. The only bound of the second salary is
  \<^verbatim>\<open>from\<close> = 0 and the threshold 5 is not below it, yet the check returns
  \<^verbatim>\<open>None\<close>, which the filter takes as a failure.
\<close>

theorem is_filter_by_salary_zero_counterexample:
  "is_filter_by_salary (Some 0) JNull = Inr (JBool True)
   \<and> is_filter_by_salary (Some 0) JNull \<noteq> Inr (JBool False)
   \<and> is_filter_by_salary (Some 5) (JObj [(''from'', JInt 0), (''to'', JNull)]) = Inr JNull
   \<and> is_filter_by_salary (Some 5) (JObj [(''from'', JInt 0), (''to'', JNull)])
       \<noteq> Inr (JBool (5 \<ge> (0::int)))"
  by (simp add: is_filter_by_salary_def dict_get_def)

section \<open>Building vacancies from the payload\<close>

lemma item_to_vacancy_snippet:
  "dict_get d ''snippet'' = JObj sn \<Longrightarrow>
   item_to_vacancy (JObj d) =
     Inr \<lparr>name = dict_get d ''name'', url = dict_get d ''url'', salary = dict_get d ''salary'',
          description = dict_get d ''description'', requirements = dict_get sn ''requirement''\<rparr>"
  by (simp add: item_to_vacancy_def)

lemma item_to_vacancy_no_requirement:
  "dict_get d ''snippet'' = JObj sn \<Longrightarrow> map_of sn ''requirement'' = None \<Longrightarrow>
   \<exists>v. item_to_vacancy (JObj d) = Inr v \<and> requirements v = JNull"
  by (simp add: item_to_vacancy_def dict_get_def)

lemma item_to_vacancy_no_snippet:
  "map_of d ''snippet'' = None \<Longrightarrow> item_to_vacancy (JObj d) = Inl AttributeError"
  by (simp add: item_to_vacancy_def dict_get_def)

lemma comprehension_all:
  "\<forall>x \<in> set xs. f x = Inr (g x) \<Longrightarrow> comprehension f xs = Inr (map g xs)"
  by (induction xs) auto

lemma comprehension_first_error:
  "\<forall>x \<in> set xs. f x = Inr (g x) \<Longrightarrow> f z = Inl e \<Longrightarrow> comprehension f (xs @ z # ys) = Inl e"
  by (induction xs) auto

text \<open>
  When every item is a dictionary that holds a dictionary under \<^verbatim>\<open>snippet\<close>, there is
  one vacancy per item, in the order of the items.
\<close>

lemma json_to_object_with_snippets:
  assumes "dict_get p ''items'' = JList its"
    and "\<forall>it \<in> set its. \<exists>d sn. it = JObj d \<and> dict_get d ''snippet'' = JObj sn"
  shows "\<exists>vs. json_to_object (JObj p) = Inr vs \<and> length vs = length its
           \<and> (\<forall>i < length its. item_to_vacancy (its ! i) = Inr (vs ! i))"
proof -
  define g where "g it = (case item_to_vacancy it of Inr v \<Rightarrow> v)" for it
  have each: "item_to_vacancy it = Inr (g it)" if "it \<in> set its" for it
  proof -
    from assms(2) that obtain d sn where "it = JObj d" and "dict_get d ''snippet'' = JObj sn"
      by blast
    then show ?thesis
      by (simp add: g_def item_to_vacancy_snippet)
  qed
  then have "comprehension item_to_vacancy its = Inr (map g its)"
    by (intro comprehension_all) blast
  with assms(1) have "json_to_object (JObj p) = Inr (map g its)"
    by (simp add: json_to_object_def)
  with each show ?thesis
    by simp
qed

text \<open>
  Claim C2 at the payload \<^verbatim>\<open>{"items": [{"name": "dev"}]}\<close>, whose only item has no
  \<^verbatim>\<open>snippet\<close>: \<^verbatim>\<open>vacancy.get("snippet")\<close> is \<^verbatim>\<open>None\<close>, which has no method
  \<^verbatim>\<open>get\<close>, and \<^verbatim>\<open>json_to_object\<close> raises \<^verbatim>\<open>AttributeError\<close> where the claim
  wants a vacancy with absent requirements.
\<close>

theorem json_to_object_missing_snippet_raises:
  "json_to_object (JObj [(''items'', JList [JObj [(''name'', JStr ''dev'')]])])
     = Inl AttributeError"
  by (simp add: json_to_object_def item_to_vacancy_def dict_get_def)

section \<open>Truncation\<close>

text \<open>
  Claim C3, as amended. The slice is a prefix of the sequence in its order and never fails.
  A count of at least the length gives the whole sequence, the count 0 gives the empty
  sequence, and a negative count \<open>n\<close> gives the sequence without its last \<open>- n\<close>
  elements, which is empty only when \<open>- n\<close> is at least the length.
\<close>

theorem slice_upto_prefix:
  "slice_upto xs n = take (if n < 0 then length xs - nat (- n) else nat n) xs
   \<and> (int (length xs) \<le> n \<longrightarrow> slice_upto xs n = xs)
   \<and> (n = 0 \<longrightarrow> slice_upto xs n = [])
   \<and> (n < 0 \<longrightarrow> slice_upto xs n = take (length xs - nat (- n)) xs)
   \<and> (n \<le> - int (length xs) \<longrightarrow> slice_upto xs n = [])"
  by (auto simp: slice_upto_def nat_diff_distrib' intro: arg_cong2[where f=take])

theorem slice_upto_prefix_witness:
  "slice_upto [1, 2, 3 :: nat] 5 = [1, 2, 3]
   \<and> slice_upto [1, 2, 3 :: nat] 3 = [1, 2, 3]
   \<and> slice_upto [1, 2, 3 :: nat] 0 = []
   \<and> slice_upto [1, 2, 3 :: nat] (- 2) = [1]
   \<and> slice_upto [1, 2, 3 :: nat] (- 7) = []"
  using slice_upto_prefix [of "[1, 2, 3 :: nat]" 5]
    slice_upto_prefix [of "[1, 2, 3 :: nat]" 3]
    slice_upto_prefix [of "[1, 2, 3 :: nat]" 0]
    slice_upto_prefix [of "[1, 2, 3 :: nat]" "- 2"]
    slice_upto_prefix [of "[1, 2, 3 :: nat]" "- 7"]
  by simp

text \<open>
  Claim C3 as stated fails at a negative count: \<^verbatim>\<open>[1, 2, 3][:-1]\<close> is
  \<^verbatim>\<open>[1, 2]\<close>, not the empty list.
\<close>

theorem slice_upto_negative_counterexample:
  "slice_upto [1, 2, 3 :: nat] (- 1) = [1, 2] \<and> slice_upto [1, 2, 3 :: nat] (- 1) \<noteq> []"
  by (simp add: slice_upto_def)

section \<open>Deleting from the JSON file\<close>

text \<open>
  What \<^verbatim>\<open>list.remove\<close> does: it raises when no element equals the argument, and
  otherwise takes out the first such element and nothing else.
\<close>

lemma list_remove_absent:
  "\<forall>y \<in> set xs. \<not> py_eq y x \<Longrightarrow> list_remove xs x = Inl ValueError"
  by (induction xs) auto

lemma list_remove_first:
  "\<forall>y \<in> set xs. \<not> py_eq y x \<Longrightarrow> py_eq z x \<Longrightarrow> list_remove (xs @ z # ys) x = Inr (xs @ ys)"
  by (induction xs) auto

lemma json_delete_removes_one:
  "\<forall>y \<in> set xs. \<not> py_eq y x \<Longrightarrow> py_eq z x \<Longrightarrow>
   json_delete_object x (Some (JList (xs @ z # ys))) = (Inr (), Some (JList (xs @ ys)))"
  by (simp add: json_delete_object_def read_json_def list_remove_first)

lemma json_delete_absent_raises:
  "\<forall>y \<in> set xs. \<not> py_eq y x \<Longrightarrow>
   json_delete_object x (Some (JList xs)) = (Inl ValueError, Some (JList xs))"
  by (simp add: json_delete_object_def read_json_def list_remove_absent)

text \<open>
  Claim C4 at a JSON file that holds the same record twice: deleting the record leaves one
  copy in the file, where the claim wants none. And on a file without the record the
  operation raises \<^verbatim>\<open>ValueError\<close> and writes nothing.
\<close>

theorem json_delete_object_first_only:
  "json_delete_object
     (JObj [(''name'', JStr ''dev''), (''url'', JNull), (''salary'', JNull),
            (''description'', JNull), (''requirements'', JNull)])
     (Some (JList
       [JObj [(''name'', JStr ''dev''), (''url'', JNull), (''salary'', JNull),
              (''description'', JNull), (''requirements'', JNull)],
        JObj [(''name'', JStr ''dev''), (''url'', JNull), (''salary'', JNull),
              (''description'', JNull), (''requirements'', JNull)]]))
   = (Inr (), Some (JList
       [JObj [(''name'', JStr ''dev''), (''url'', JNull), (''salary'', JNull),
              (''description'', JNull), (''requirements'', JNull)]]))
   \<and> json_delete_object
     (JObj [(''name'', JStr ''dev''), (''url'', JNull), (''salary'', JNull),
            (''description'', JNull), (''requirements'', JNull)])
     (Some (JList []))
   = (Inl ValueError, Some (JList []))"
  by (simp add: json_delete_object_def read_json_def)

section \<open>The filter and its fallback\<close>

lemma filter_loop_filter:
  "\<forall>v \<in> set vs. cond v = Inr (P v) \<Longrightarrow> filter_loop cond vs acc = Inr (acc @ filter P vs)"
  by (induction vs arbitrary: acc) auto

lemma nz_bound_cases: "nz_bound b \<Longrightarrow> b = JNull \<or> (\<exists>i. i \<noteq> 0 \<and> b = JInt i)"
  by (cases b) auto

text \<open>On salaries without a 0 the salary check of the source follows the rules.\<close>

lemma is_filter_by_salary_spec:
  assumes "nz_salary s"
  shows "\<exists>r. is_filter_by_salary t s = Inr r
           \<and> py_truthy r = spec_salary_passes (nonzero_threshold t) s"
proof (cases t)
  case None
  then show ?thesis
    by (simp add: is_filter_by_salary_def nonzero_threshold_def)
next
  case (Some n)
  show ?thesis
  proof (cases "n = 0")
    case True
    with Some show ?thesis
      by (simp add: is_filter_by_salary_def nonzero_threshold_def)
  next
    case False
    show ?thesis
    proof (cases s)
      case (JObj d)
      with assms have "nz_bound (dict_get d ''from'')" and "nz_bound (dict_get d ''to'')"
        by auto
      then show ?thesis
        using Some False JObj
        by (auto dest!: nz_bound_cases
            simp: is_filter_by_salary_def nonzero_threshold_def py_ge_def py_le_def int_cmp_def)
    qed (use assms Some False in \<open>auto simp: is_filter_by_salary_def nonzero_threshold_def\<close>)
  qed
qed

lemma salary_threshold_spec:
  "threshold_arg c \<Longrightarrow>
   \<exists>t. salary_threshold int_other c = Inr t
      \<and> nonzero_threshold t = nonzero_threshold (spec_threshold int_other c)"
proof (cases c)
  case (JStr s)
  show ?thesis
  proof (cases "s = []")
    case True
    with JStr show ?thesis
      by (simp add: salary_threshold_def int_of_str_def is_ascii_def int_of_ascii_def strip_def)
  next
    case False
    with JStr show ?thesis
      by (simp add: salary_threshold_def split: option.splits)
  qed
qed (auto simp: salary_threshold_def nonzero_threshold_def)

lemma keeps_spec:
  assumes "nz_salary (salary v)"
  shows "keeps (kwargs_get kw ''name'') (kwargs_get kw ''url'') t
           (kwargs_get kw ''description'') (kwargs_get kw ''requirements'') v
         = Inr (spec_satisfies (nonzero_threshold t) kw v)"
proof -
  obtain r where "is_filter_by_salary t (salary v) = Inr r"
    and "py_truthy r = spec_salary_passes (nonzero_threshold t) (salary v)"
    using is_filter_by_salary_spec[OF assms] by blast
  then show ?thesis
    by (auto simp: keeps_def spec_satisfies_def field_ok_def criterion_met_def)
qed

text \<open>
  Claim C5, as amended. For records whose salary is \<^verbatim>\<open>None\<close> or a range whose bounds,
  where present, are integers other than 0, and a salary criterion that is text, an
  integer or absent, with a threshold of 0 counting as no threshold:
  \<^verbatim>\<open>filter_by_fields\<close> returns the original collection when no record satisfies every
  supplied criterion, and otherwise exactly the records that do, in their order.
\<close>

theorem filter_by_fields_fallback:
  assumes "\<forall>v \<in> set vs. nz_salary (salary v)"
    and "threshold_arg (kwargs_get kw ''salary'')"
    and "t = nonzero_threshold (spec_threshold int_other (kwargs_get kw ''salary''))"
  shows "filter_by_fields int_other vs kw =
           Inr (if filter (spec_satisfies t kw) vs = [] then vs
                else filter (spec_satisfies t kw) vs)"
proof -
  obtain t' where t': "salary_threshold int_other (kwargs_get kw ''salary'') = Inr t'"
    and eq: "nonzero_threshold t' = t"
    using salary_threshold_spec[OF assms(2)] assms(3) by metis
  have "filter_loop (keeps (kwargs_get kw ''name'') (kwargs_get kw ''url'') t'
           (kwargs_get kw ''description'') (kwargs_get kw ''requirements'')) vs []
        = Inr ([] @ filter (spec_satisfies t kw) vs)"
    by (rule filter_loop_filter) (use assms(1) eq in \<open>auto simp: keeps_spec\<close>)
  then show ?thesis
    by (simp add: filter_by_fields_def t')
qed

text \<open>
  Two records, a developer paid from 1000 and a tester without salary. The name
  \<^verbatim>\<open>ops\<close> matches neither, and both come back. An empty name with the salary text
  \<^verbatim>\<open>1500\<close> keeps the developer only.
\<close>

theorem filter_by_fields_fallback_witness:
  "filter_by_fields (\<lambda>s. None)
     [\<lparr>name = JStr ''dev'', url = JNull, salary = JObj [(''from'', JInt 1000), (''to'', JNull)],
        description = JNull, requirements = JNull\<rparr>,
      \<lparr>name = JStr ''qa'', url = JNull, salary = JNull,
        description = JNull, requirements = JNull\<rparr>]
     (Map.empty(''name'' \<mapsto> JStr ''ops''))
   = Inr
     [\<lparr>name = JStr ''dev'', url = JNull, salary = JObj [(''from'', JInt 1000), (''to'', JNull)],
        description = JNull, requirements = JNull\<rparr>,
      \<lparr>name = JStr ''qa'', url = JNull, salary = JNull,
        description = JNull, requirements = JNull\<rparr>]
   \<and> filter_by_fields (\<lambda>s. None)
     [\<lparr>name = JStr ''dev'', url = JNull, salary = JObj [(''from'', JInt 1000), (''to'', JNull)],
        description = JNull, requirements = JNull\<rparr>,
      \<lparr>name = JStr ''qa'', url = JNull, salary = JNull,
        description = JNull, requirements = JNull\<rparr>]
     (Map.empty(''name'' \<mapsto> JStr '''', ''salary'' \<mapsto> JStr ''1500''))
   = Inr
     [\<lparr>name = JStr ''dev'', url = JNull, salary = JObj [(''from'', JInt 1000), (''to'', JNull)],
        description = JNull, requirements = JNull\<rparr>]"
  using
    filter_by_fields_fallback [of
      "[\<lparr>name = JStr ''dev'', url = JNull, salary = JObj [(''from'', JInt 1000), (''to'', JNull)],
        description = JNull, requirements = JNull\<rparr>,
      \<lparr>name = JStr ''qa'', url = JNull, salary = JNull,
        description = JNull, requirements = JNull\<rparr>]"
      "Map.empty(''name'' \<mapsto> JStr ''ops'')" None "\<lambda>s. None"]
    filter_by_fields_fallback [of
      "[\<lparr>name = JStr ''dev'', url = JNull, salary = JObj [(''from'', JInt 1000), (''to'', JNull)],
        description = JNull, requirements = JNull\<rparr>,
      \<lparr>name = JStr ''qa'', url = JNull, salary = JNull,
        description = JNull, requirements = JNull\<rparr>]"
      "Map.empty(''name'' \<mapsto> JStr '''', ''salary'' \<mapsto> JStr ''1500'')" "Some 1500" "\<lambda>s. None"]
  by (simp add: spec_satisfies_def criterion_met_def kwargs_get_def dict_get_def
      nonzero_threshold_def int_of_str_def is_ascii_def int_of_ascii_def strip_def
      is_space_def unsigned_def is_digit_def digit_val_def)

text \<open>
  Claim C5 as stated fails where a number is 0. At the salary criterion \<^verbatim>\<open>0\<close>, of a
  record with the range up to 5 and a record without salary only the first satisfies the
  criterion under the salary rules, and so the claim wants it alone; the source returns
  both. At the salary criterion \<^verbatim>\<open>5\<close>, a record with the range from 0 and one with
  the range from 3 both satisfy it; the source returns the second only.
\<close>

theorem filter_by_fields_zero_counterexample:
  "filter (spec_satisfies (spec_threshold (\<lambda>s. None) (JStr ''0''))
       (Map.empty(''salary'' \<mapsto> JStr ''0'')))
     [\<lparr>name = JStr ''a'', url = JNull, salary = JObj [(''from'', JNull), (''to'', JInt 5)],
        description = JNull, requirements = JNull\<rparr>,
      \<lparr>name = JStr ''q'', url = JNull, salary = JNull,
        description = JNull, requirements = JNull\<rparr>]
   = [\<lparr>name = JStr ''a'', url = JNull, salary = JObj [(''from'', JNull), (''to'', JInt 5)],
        description = JNull, requirements = JNull\<rparr>]
   \<and> filter_by_fields (\<lambda>s. None)
     [\<lparr>name = JStr ''a'', url = JNull, salary = JObj [(''from'', JNull), (''to'', JInt 5)],
        description = JNull, requirements = JNull\<rparr>,
      \<lparr>name = JStr ''q'', url = JNull, salary = JNull,
        description = JNull, requirements = JNull\<rparr>]
     (Map.empty(''salary'' \<mapsto> JStr ''0''))
   = Inr
     [\<lparr>name = JStr ''a'', url = JNull, salary = JObj [(''from'', JNull), (''to'', JInt 5)],
        description = JNull, requirements = JNull\<rparr>,
      \<lparr>name = JStr ''q'', url = JNull, salary = JNull,
        description = JNull, requirements = JNull\<rparr>]
   \<and> filter (spec_satisfies (spec_threshold (\<lambda>s. None) (JStr ''5''))
       (Map.empty(''salary'' \<mapsto> JStr ''5'')))
     [\<lparr>name = JStr ''x'', url = JNull, salary = JObj [(''from'', JInt 0), (''to'', JNull)],
        description = JNull, requirements = JNull\<rparr>,
      \<lparr>name = JStr ''y'', url = JNull, salary = JObj [(''from'', JInt 3), (''to'', JNull)],
        description = JNull, requirements = JNull\<rparr>]
   = [\<lparr>name = JStr ''x'', url = JNull, salary = JObj [(''from'', JInt 0), (''to'', JNull)],
        description = JNull, requirements = JNull\<rparr>,
      \<lparr>name = JStr ''y'', url = JNull, salary = JObj [(''from'', JInt 3), (''to'', JNull)],
        description = JNull, requirements = JNull\<rparr>]
   \<and> filter_by_fields (\<lambda>s. None)
     [\<lparr>name = JStr ''x'', url = JNull, salary = JObj [(''from'', JInt 0), (''to'', JNull)],
        description = JNull, requirements = JNull\<rparr>,
      \<lparr>name = JStr ''y'', url = JNull, salary = JObj [(''from'', JInt 3), (''to'', JNull)],
        description = JNull, requirements = JNull\<rparr>]
     (Map.empty(''salary'' \<mapsto> JStr ''5''))
   = Inr
     [\<lparr>name = JStr ''y'', url = JNull, salary = JObj [(''from'', JInt 3), (''to'', JNull)],
        description = JNull, requirements = JNull\<rparr>]"
  by (simp add: spec_satisfies_def criterion_met_def kwargs_get_def dict_get_def
      filter_by_fields_def salary_threshold_def keeps_def field_ok_def is_filter_by_salary_def
      py_ge_def int_cmp_def int_of_str_def is_ascii_def int_of_ascii_def strip_def
      is_space_def unsigned_def is_digit_def digit_val_def)

section \<open>A salary criterion of zero\<close>

lemma keeps_zero: "keeps nm ur (Some 0) descr req = keeps nm ur None descr req"
  by (rule ext) (simp add: keeps_def zero_threshold_is_none)

lemma threshold_zero_text: "salary_threshold int_other (JStr ''0'') = Inr (Some 0)"
  by (simp add: salary_threshold_def int_of_str_def is_ascii_def int_of_ascii_def strip_def
      is_space_def unsigned_def is_digit_def digit_val_def)

text \<open>
  Claim C10. The text \<^verbatim>\<open>0\<close> parses to the threshold 0; with it the salary check
  passes every record, as it does without a threshold; and \<^verbatim>\<open>filter_by_fields\<close>
  with the salary criterion \<^verbatim>\<open>0\<close> returns what it returns with no salary criterion,
  for every collection and all other criteria.
\<close>

theorem zero_salary_text_no_constraint:
  "salary_threshold int_other (JStr ''0'') = Inr (Some 0)
   \<and> is_filter_by_salary (Some 0) s = Inr (JBool True)
   \<and> is_filter_by_salary (Some 0) s = is_filter_by_salary None s
   \<and> filter_by_fields int_other vs (kw(''salary'' \<mapsto> JStr ''0''))
       = filter_by_fields int_other vs (kw(''salary'' := None))"
proof -
  have "salary_threshold int_other JNull = Inr None"
    by (simp add: salary_threshold_def)
  then have "filter_by_fields int_other vs (kw(''salary'' \<mapsto> JStr ''0''))
      = filter_by_fields int_other vs (kw(''salary'' := None))"
    by (simp add: filter_by_fields_def kwargs_get_def threshold_zero_text keeps_zero)
  moreover have "is_filter_by_salary (Some 0) s = Inr (JBool True)"
    by (simp add: is_filter_by_salary_def)
  ultimately show ?thesis
    by (simp add: threshold_zero_text zero_threshold_is_none)
qed

section \<open>Comparing two vacancies\<close>

text \<open>
  When both salaries are dictionaries whose \<^verbatim>\<open>to\<close> is an integer, \<^verbatim>\<open>__gt__\<close>
  returns the left vacancy if its \<^verbatim>\<open>to\<close> is greater and the right one otherwise,
  and \<^verbatim>\<open>__lt__\<close> the left one if its \<^verbatim>\<open>to\<close> is smaller and the right one
  otherwise. When a salary is \<^verbatim>\<open>None\<close> both return the text.
\<close>

lemma vacancy_compare_numbers:
  assumes "salary a = JObj da" and "map_of da ''to'' = Some (JInt x)"
    and "salary b = JObj db" and "map_of db ''to'' = Some (JInt y)"
  shows "vacancy_gt a b = Inr (Vac (if x > y then a else b))"
    and "vacancy_lt a b = Inr (Vac (if x < y then a else b))"
  using assms by (auto simp: vacancy_gt_def vacancy_lt_def py_gt_def py_lt_def int_cmp_def)

lemma vacancy_compare_sentinel:
  assumes "salary a = JNull \<or> salary b = JNull"
  shows "vacancy_gt a b = Inr (Text salary_not_specified)"
    and "vacancy_lt a b = Inr (Text salary_not_specified)"
  using assms by (auto simp: vacancy_gt_def vacancy_lt_def)

lemma vacancy_compare_no_upper_key:
  assumes "salary a = JObj da" and "map_of da ''to'' = None" and "salary b \<noteq> JNull"
  shows "vacancy_gt a b = Inl KeyError" and "vacancy_lt a b = Inl KeyError"
  using assms by (auto simp: vacancy_gt_def vacancy_lt_def)

text \<open>
  Claim C6 at two records that both have a salary, the first an open range
  \<^verbatim>\<open>{"from": 100, "to": null}\<close>, the second \<^verbatim>\<open>{"from": 50, "to": 200}\<close>:
  \<^verbatim>\<open>None > 200\<close> and \<^verbatim>\<open>None < 200\<close> raise \<^verbatim>\<open>TypeError\<close>, so neither
  comparison returns a record or the text.
\<close>

theorem vacancy_gt_open_range_raises:
  "vacancy_gt
     \<lparr>name = JStr ''a'', url = JNull, salary = JObj [(''from'', JInt 100), (''to'', JNull)],
      description = JNull, requirements = JNull\<rparr>
     \<lparr>name = JStr ''b'', url = JNull, salary = JObj [(''from'', JInt 50), (''to'', JInt 200)],
      description = JNull, requirements = JNull\<rparr>
   = Inl TypeError
   \<and> vacancy_lt
     \<lparr>name = JStr ''a'', url = JNull, salary = JObj [(''from'', JInt 100), (''to'', JNull)],
      description = JNull, requirements = JNull\<rparr>
     \<lparr>name = JStr ''b'', url = JNull, salary = JObj [(''from'', JInt 50), (''to'', JInt 200)],
      description = JNull, requirements = JNull\<rparr>
   = Inl TypeError"
  by (simp add: vacancy_gt_def vacancy_lt_def py_gt_def py_lt_def)

section \<open>Saving and appending with the JSON backend\<close>

text \<open>
  Claim C7, for \<^verbatim>\<open>JsonFileManager\<close>. Whatever the file was, after
  \<^verbatim>\<open>save([r1, r2])\<close> it reads back as \<^verbatim>\<open>[r1, r2]\<close>, and after
  \<^verbatim>\<open>add_object(r3)\<close> on that file it reads back as \<^verbatim>\<open>[r1, r2, r3]\<close>; both
  operations succeed. In general \<^verbatim>\<open>save\<close> leaves the list it was given, and
  \<^verbatim>\<open>add_object\<close> on a file that holds a list writes that list with the record added
  at its end.
\<close>

theorem json_round_trip:
  "json_save [r1, r2] fs = (Inr (), Some (JList [r1, r2]))
   \<and> read_json (snd (json_save [r1, r2] fs)) = Inr (JList [r1, r2])
   \<and> json_add_object r3 (snd (json_save [r1, r2] fs)) = (Inr (), Some (JList [r1, r2, r3]))
   \<and> read_json (snd (json_add_object r3 (snd (json_save [r1, r2] fs))))
       = Inr (JList [r1, r2, r3])
   \<and> read_json (snd (json_save data fs)) = Inr (JList data)
   \<and> json_add_object r (Some (JList xs)) = (Inr (), Some (JList (xs @ [r])))"
  by (simp add: json_save_def read_json_def json_add_object_def)

section \<open>Saving with the CSV backend\<close>

lemma writerows_extends:
  "\<exists>rows. snd (writerows fieldnames rowdicts written) = written @ rows"
proof (induction rowdicts arbitrary: written)
  case Nil
  then show ?case by simp
next
  case (Cons rowdict rowdicts)
  show ?case
  proof (cases "dict_to_list fieldnames rowdict")
    case (Inl e)
    then show ?thesis by simp
  next
    case (Inr row)
    from Cons[of "written @ [row]"] obtain rows where
      "snd (writerows fieldnames rowdicts (written @ [row])) = (written @ [row]) @ rows"
      by blast
    with Inr show ?thesis by simp
  qed
qed

text \<open>When no record has a key outside the field names, every record becomes a row.\<close>

lemma writerows_all:
  "\<forall>d \<in> set rowdicts. set (map fst d) \<subseteq> set fieldnames \<Longrightarrow>
   writerows fieldnames rowdicts written =
     (Inr (), written @
        map (\<lambda>d. map (\<lambda>key. case map_of d key of None \<Rightarrow> JStr [] | Some v \<Rightarrow> v) fieldnames)
          rowdicts)"
  by (induction rowdicts arbitrary: written) (auto simp: dict_to_list_def)

text \<open>
  Claim C8. \<^verbatim>\<open>CsvFileManager.save\<close> on the empty list raises \<^verbatim>\<open>IndexError\<close>
  and leaves the file as it was. On a list with a first record, the first row it writes is
  the keys of that record, in their order, whatever happens to the rows after it.
\<close>

theorem csv_save_header:
  "csv_save [] fs = (Inl IndexError, fs)
   \<and> (\<exists>res rows. csv_save (first # rest) fs = (res, Some (map JStr (map fst first) # rows)))"
proof -
  obtain res written where
    w: "writerows (map fst first) (first # rest) [map JStr (map fst first)] = (res, written)"
    by (cases "writerows (map fst first) (first # rest) [map JStr (map fst first)]")
  obtain rows where
    "snd (writerows (map fst first) (first # rest) [map JStr (map fst first)])
       = [map JStr (map fst first)] @ rows"
    using writerows_extends by blast
  with w have "written = map JStr (map fst first) # rows"
    by simp
  with w have "csv_save (first # rest) fs = (res, Some (map JStr (map fst first) # rows))"
    unfolding csv_save_def Let_def list.case by simp
  moreover have "csv_save [] fs = (Inl IndexError, fs)"
    by (simp add: csv_save_def)
  ultimately show ?thesis
    by blast
qed

section \<open>Serialisation keeps the five fields\<close>

text \<open>
  Claim C9. \<^verbatim>\<open>serialized_vacancy\<close> is a total function of the vacancy alone; its result
  has exactly the keys name, url, salary, description and requirements, in this order and
  each once, and each key holds the value of the vacancy's field, whatever that value is
  (an absent field is \<^verbatim>\<open>None\<close>). \<^verbatim>\<open>serialized_vacancies\<close> applies it to every
  element, in order.
\<close>

theorem serialized_vacancy_five_keys:
  "map fst (serialized_vacancy v) =
     [''name'', ''url'', ''salary'', ''description'', ''requirements'']
   \<and> distinct (map fst (serialized_vacancy v))
   \<and> dict_get (serialized_vacancy v) ''name'' = name v
   \<and> dict_get (serialized_vacancy v) ''url'' = url v
   \<and> dict_get (serialized_vacancy v) ''salary'' = salary v
   \<and> dict_get (serialized_vacancy v) ''description'' = description v
   \<and> dict_get (serialized_vacancy v) ''requirements'' = requirements v
   \<and> serialized_vacancies vs = map serialized_vacancy vs
   \<and> length (serialized_vacancies vs) = length vs"
  by (simp add: serialized_vacancy_def serialized_vacancies_def dict_get_def)

end
